theory Spec2Isabelle
  imports Main "HOL-Library.Word"
begin

section \<open>The leader election client of atomix-go-client (pkg/client/election/election.go)\<close>

text \<open>
  The election primitive is a thin client: every operation builds a request from a
  session header, issues one RPC and, when the RPC succeeds, merges the response header
  into the session. \<open>Listen\<close> additionally starts a goroutine that forwards the events of
  a server stream to a channel of the caller.

  Machine integers are \<open>uint64\<close> words, Go errors are values of the datatype \<open>error\<close>, and
  every collaborator the operations call (the session, the RPC client, the event stream,
  the channel) appears either as explicit state or as an answer supplied by the
  environment.
\<close>

subsection \<open>Errors, headers and messages\<close>

type_synonym uint64 = "64 word"
type_synonym byte = "8 word"

text \<open>Go's \<open>error\<close> values: \<open>io.EOF\<close>, the configuration error of the partition lookup, and
  any other failure (transport or server reported), tagged by its message.\<close>

datatype error = EOF | InvalidConfiguration | Failure string

text \<open>Modelled from the spec: the stream header of the \<open>headers\<close> package, which
  election.go uses but does not declare: the pair (stream id, offset).\<close>

type_synonym StreamHeader = "uint64 \<times> uint64"

text \<open>Modelled from the spec: the response header of the \<open>headers\<close> package, which
  election.go uses but does not declare. It carries the commit index and the stream
  headers; election.go reads its field \<open>Streams\<close>.\<close>

record ResponseHeader =
  Index :: uint64
  Streams :: "StreamHeader list"

text \<open>Modelled from the spec: the session header, which election.go passes on but does
  not declare. It holds the session id, the request sequence number, the last index
  seen and the stream offsets; there is one per session, and a request carries a copy.\<close>

record SessionHeader =
  sessionId :: uint64
  sequenceNumber :: uint64
  lastIndex :: uint64
  streams :: "StreamHeader list"

text \<open>Modelled from the spec: the request messages of the RPC surface (package \<open>pb\<close>,
  which election.go uses but does not declare). Every request carries a session header
  and five of them a candidate id.\<close>

datatype request =
    GetLeadershipRequest SessionHeader
  | EnterRequest SessionHeader string
  | WithdrawRequest SessionHeader string
  | AnointRequest SessionHeader string
  | PromoteRequest SessionHeader string
  | EvictRequest SessionHeader string
  | EventRequest SessionHeader

text \<open>Modelled from the spec: the response messages of the RPC surface (package \<open>pb\<close>,
  which election.go uses but does not declare). Every response carries a response
  header; that is all a Withdraw response has.\<close>

record HeaderResponse =
  Header :: ResponseHeader

text \<open>Modelled from the spec: the responses of GetLeadership and Enter and the messages of
  the event stream add a term snapshot to the header.\<close>

record TermResponse = HeaderResponse +
  Term :: uint64
  Leader :: string
  Candidates :: "string list"

text \<open>Modelled from the spec: the responses of Anoint, Promote and Evict add a success
  flag to the header.\<close>

record SucceededResponse = HeaderResponse +
  Succeeded :: bool

subsection \<open>The types election.go declares\<close>

text \<open>\<open>type Term struct { Term uint64; Leader string; Candidates []string }\<close>. The fields
  carry the prefix \<open>term_\<close> because the response messages have fields of the same names.\<close>

record Term =
  term_Term :: uint64
  term_Leader :: string
  term_Candidates :: "string list"

type_synonym ElectionEventType = string

definition EVENT_CHANGED :: ElectionEventType where
  "EVENT_CHANGED = ''changed''"

record ElectionEvent =
  event_Type :: ElectionEventType
  event_Term :: Term

subsection \<open>The session\<close>

text \<open>Modelled from the spec: \<open>session.NextHeader\<close>, which election.go calls but does not
  define. It returns a header with the sequence number advanced by one and leaves the
  session at that header. The result is (header, session afterwards); the addition is
  that of \<open>uint64\<close>.\<close>

definition NextHeader :: "SessionHeader \<Rightarrow> SessionHeader \<times> SessionHeader" where
  "NextHeader s = (let s' = s\<lparr>sequenceNumber := sequenceNumber s + 1\<rparr> in (s', s'))"

text \<open>Modelled from the spec: \<open>session.GetHeader\<close>, which election.go calls but does not
  define. It returns the current header without changing the session.\<close>

definition GetHeader :: "SessionHeader \<Rightarrow> SessionHeader" where
  "GetHeader s = s"

text \<open>Modelled from the spec: the merge of one stream header into the recorded stream
  offsets, the inner step of \<open>session.UpdateHeader\<close>. For a recorded stream the larger of
  the recorded and the received offset is kept; a stream not yet recorded is added.\<close>

fun merge_stream :: "StreamHeader list \<Rightarrow> StreamHeader \<Rightarrow> StreamHeader list" where
  "merge_stream [] (sid, off) = [(sid, off)]"
| "merge_stream ((sid', off') # rest) (sid, off) =
     (if sid' = sid then (sid', max off' off) # rest
      else (sid', off') # merge_stream rest (sid, off))"

text \<open>Modelled from the spec: \<open>session.UpdateHeader\<close>, which election.go calls but does
  not define. It merges the last index by maximum and every stream header of the
  response by \<open>merge_stream\<close>; the sequence number is not touched.\<close>

definition UpdateHeader :: "SessionHeader \<Rightarrow> ResponseHeader \<Rightarrow> SessionHeader" where
  "UpdateHeader s h =
     s\<lparr>lastIndex := max (lastIndex s) (Index h),
       streams := foldl merge_stream (streams s) (Streams h)\<rparr>"

subsection \<open>The event stream and the caller's channel\<close>

text \<open>
  \<open>session.WaitStream(stream)\<close> returns a channel and the listener reads it once with
  \<open>_, ok := <-ch\<close>. The read ends in one of three ways: a value arrives (\<open>ok\<close> is true, the
  wait resolved positively), the channel is closed (\<open>ok\<close> is false, the wait was
  cancelled), or nothing ever happens and the goroutine stays blocked.
\<close>

datatype wait_outcome = Received | Closed | Pending

text \<open>
  One iteration of the listener loop sees what \<open>events.Recv()\<close> returns, a response
  pointer (\<open>None\<close> is nil) and an error (\<open>None\<close> is nil), and how a \<open>WaitStream\<close> call
  made during that iteration ends. The event stream is the list of these, in order.
  A response that is not nil carries its header.
\<close>

type_synonym iteration =
  "TermResponse option \<times> error option \<times> (StreamHeader \<Rightarrow> wait_outcome)"

text \<open>
  The caller's channel \<open>c chan<- *ElectionEvent\<close>: whether it has been closed, the events
  sent on it so far, oldest first, and its \<open>room\<close>, the number of further sends that can
  complete (the free places of its buffer and the receives the caller still makes).
  The statement \<open>c <- ev\<close> ends in one of three ways: on a closed channel it panics; on
  an open channel without room it blocks, for ever, since the room does not come back;
  otherwise the event is sent and takes one place.
\<close>

record chan =
  closed :: bool
  queue :: "ElectionEvent list"
  room :: nat

datatype sending = Sent chan | SendPanics | SendBlocks

definition send :: "chan \<Rightarrow> ElectionEvent \<Rightarrow> sending" where
  "send c ev =
     (if closed c then SendPanics
      else if room c = 0 then SendBlocks
      else Sent (c\<lparr>queue := queue c @ [ev], room := room c - 1\<rparr>))"

subsection \<open>The RPC client and the election\<close>

text \<open>\<open>pb.LeaderElectionServiceClient\<close>: one method per RPC. What the server answers is
  given by the environment; \<open>client_Events\<close> answers with the event stream.\<close>

record client =
  client_GetLeadership :: "request \<Rightarrow> error + TermResponse"
  client_Enter :: "request \<Rightarrow> error + TermResponse"
  client_Withdraw :: "request \<Rightarrow> error + HeaderResponse"
  client_Anoint :: "request \<Rightarrow> error + SucceededResponse"
  client_Promote :: "request \<Rightarrow> error + SucceededResponse"
  client_Evict :: "request \<Rightarrow> error + SucceededResponse"
  client_Events :: "request \<Rightarrow> error + iteration list"

text \<open>\<open>type election struct { name; client; session; id }\<close>. The field \<open>id\<close> and the
  method \<open>Id\<close> carry a prime, since HOL has constants of both names.\<close>

record election =
  name :: string
  client :: client
  session :: SessionHeader
  id' :: string

text \<open>
  What an operation does, as seen from outside: the value it returns (\<open>Inl\<close> is a non-nil
  error), the calls it made on the session and on the RPC client, in order, and the
  election afterwards. \<open>reply\<close> is the non-error part of the Go result: a \<open>*Term\<close>, a
  \<open>bool\<close>, or nothing for the operations that return only an error.
\<close>

datatype reply = TermReply Term | BoolReply bool | NoReply

datatype call =
    CallGetHeader
  | CallNextHeader
  | CallRpc request
  | CallUpdateHeader ResponseHeader

record outcome =
  returned :: "error + reply"
  calls :: "call list"
  after :: election

subsection \<open>The operations\<close>

definition Id' :: "election \<Rightarrow> string" where
  "Id' e = id' e"

definition GetTerm :: "election \<Rightarrow> outcome" where
  "GetTerm e =
     (let request = GetLeadershipRequest (GetHeader (session e)) in
      case client_GetLeadership (client e) request of
        Inl err \<Rightarrow>
          \<lparr>returned = Inl err, calls = [CallGetHeader, CallRpc request], after = e\<rparr>
      | Inr response \<Rightarrow>
          \<lparr>returned = Inr (TermReply \<lparr>term_Term = Term response,
                                      term_Leader = Leader response,
                                      term_Candidates = Candidates response\<rparr>),
           calls = [CallGetHeader, CallRpc request, CallUpdateHeader (Header response)],
           after = e\<lparr>session := UpdateHeader (session e) (Header response)\<rparr>\<rparr>)"

definition Enter :: "election \<Rightarrow> outcome" where
  "Enter e =
     (let (header, sess) = NextHeader (session e);
          request = EnterRequest header (id' e) in
      case client_Enter (client e) request of
        Inl err \<Rightarrow>
          \<lparr>returned = Inl err, calls = [CallNextHeader, CallRpc request],
           after = e\<lparr>session := sess\<rparr>\<rparr>
      | Inr response \<Rightarrow>
          \<lparr>returned = Inr (TermReply \<lparr>term_Term = Term response,
                                      term_Leader = Leader response,
                                      term_Candidates = Candidates response\<rparr>),
           calls = [CallNextHeader, CallRpc request, CallUpdateHeader (Header response)],
           after = e\<lparr>session := UpdateHeader sess (Header response)\<rparr>\<rparr>)"

definition Leave :: "election \<Rightarrow> outcome" where
  "Leave e =
     (let (header, sess) = NextHeader (session e);
          request = WithdrawRequest header (id' e) in
      case client_Withdraw (client e) request of
        Inl err \<Rightarrow>
          \<lparr>returned = Inl err, calls = [CallNextHeader, CallRpc request],
           after = e\<lparr>session := sess\<rparr>\<rparr>
      | Inr response \<Rightarrow>
          \<lparr>returned = Inr NoReply,
           calls = [CallNextHeader, CallRpc request, CallUpdateHeader (Header response)],
           after = e\<lparr>session := UpdateHeader sess (Header response)\<rparr>\<rparr>)"

definition Anoint :: "election \<Rightarrow> string \<Rightarrow> outcome" where
  "Anoint e cid =
     (let (header, sess) = NextHeader (session e);
          request = AnointRequest header cid in
      case client_Anoint (client e) request of
        Inl err \<Rightarrow>
          \<lparr>returned = Inl err, calls = [CallNextHeader, CallRpc request],
           after = e\<lparr>session := sess\<rparr>\<rparr>
      | Inr response \<Rightarrow>
          \<lparr>returned = Inr (BoolReply (Succeeded response)),
           calls = [CallNextHeader, CallRpc request, CallUpdateHeader (Header response)],
           after = e\<lparr>session := UpdateHeader sess (Header response)\<rparr>\<rparr>)"

definition Promote :: "election \<Rightarrow> string \<Rightarrow> outcome" where
  "Promote e cid =
     (let (header, sess) = NextHeader (session e);
          request = PromoteRequest header cid in
      case client_Promote (client e) request of
        Inl err \<Rightarrow>
          \<lparr>returned = Inl err, calls = [CallNextHeader, CallRpc request],
           after = e\<lparr>session := sess\<rparr>\<rparr>
      | Inr response \<Rightarrow>
          \<lparr>returned = Inr (BoolReply (Succeeded response)),
           calls = [CallNextHeader, CallRpc request, CallUpdateHeader (Header response)],
           after = e\<lparr>session := UpdateHeader sess (Header response)\<rparr>\<rparr>)"

definition Evict :: "election \<Rightarrow> string \<Rightarrow> outcome" where
  "Evict e cid =
     (let (header, sess) = NextHeader (session e);
          request = EvictRequest header cid in
      case client_Evict (client e) request of
        Inl err \<Rightarrow>
          \<lparr>returned = Inl err, calls = [CallNextHeader, CallRpc request],
           after = e\<lparr>session := sess\<rparr>\<rparr>
      | Inr response \<Rightarrow>
          \<lparr>returned = Inr (BoolReply (Succeeded response)),
           calls = [CallNextHeader, CallRpc request, CallUpdateHeader (Header response)],
           after = e\<lparr>session := UpdateHeader sess (Header response)\<rparr>\<rparr>)"

subsection \<open>The listener\<close>

text \<open>
  The goroutine started by \<open>Listen\<close>. Its state is the caller's channel, the failures it
  has passed to \<open>glog.Error\<close>, the stream headers it has waited for, and where it stands:
  \<open>Running\<close> (in the loop; at the end of the stream so far it is blocked in \<open>Recv\<close>),
  \<open>Done\<close> (left the loop at \<open>io.EOF\<close>), \<open>Panicked\<close> (nil dereference, or send on a closed
  channel), \<open>Waiting\<close> (blocked for ever on a wait that never resolves) or \<open>Sending\<close>
  (blocked for ever in a send that nobody receives).
\<close>

datatype status = Running | Done | Panicked | Waiting | Sending

record listener =
  chan :: chan
  logged :: "error list"
  waited :: "StreamHeader list"
  status :: status

fun listen_loop :: "iteration list \<Rightarrow> listener \<Rightarrow> listener" where
  "listen_loop [] l = l"
| "listen_loop ((response, err, WaitStream) # rest) l =
     (if err = Some EOF then l\<lparr>status := Done\<rparr>
      else
        let l = (case err of None \<Rightarrow> l | Some failure \<Rightarrow> l\<lparr>logged := logged l @ [failure]\<rparr>) in
        case response of
          None \<Rightarrow> l\<lparr>status := Panicked\<rparr>
        | Some r \<Rightarrow>
            if length (Streams (Header r)) = 0 then
              (case send (chan l)
                      \<lparr>event_Type = EVENT_CHANGED,
                       event_Term = \<lparr>term_Term = Term r,
                                     term_Leader = Leader r,
                                     term_Candidates = Candidates r\<rparr>\<rparr> of
                 SendPanics \<Rightarrow> l\<lparr>status := Panicked\<rparr>
               | SendBlocks \<Rightarrow> l\<lparr>status := Sending\<rparr>
               | Sent c \<Rightarrow> listen_loop rest (l\<lparr>chan := c\<rparr>))
            else
              let stream = Streams (Header r) ! 0;
                  l = l\<lparr>waited := waited l @ [stream]\<rparr> in
              case WaitStream stream of
                Received \<Rightarrow>
                  (case send (chan l)
                          \<lparr>event_Type = EVENT_CHANGED,
                           event_Term = \<lparr>term_Term = Term r,
                                         term_Leader = Leader r,
                                         term_Candidates = Candidates r\<rparr>\<rparr> of
                     SendPanics \<Rightarrow> l\<lparr>status := Panicked\<rparr>
                   | SendBlocks \<Rightarrow> l\<lparr>status := Sending\<rparr>
                   | Sent c \<Rightarrow> listen_loop rest (l\<lparr>chan := c\<rparr>))
              | Closed \<Rightarrow> listen_loop rest l
              | Pending \<Rightarrow> l\<lparr>status := Waiting\<rparr>)"

text \<open>\<open>Listen\<close> returns as soon as the stream is open; \<open>goroutine\<close> is the listener it
  started (none when the subscribe call failed), run over the event stream from the
  state \<open>start c\<close>: nothing logged, nothing waited for, in the loop.\<close>

definition start :: "chan \<Rightarrow> listener" where
  "start c = \<lparr>chan = c, logged = [], waited = [], status = Running\<rparr>"

record listening = outcome +
  goroutine :: "listener option"

definition Listen :: "election \<Rightarrow> chan \<Rightarrow> listening" where
  "Listen e c =
     (let (header, sess) = NextHeader (session e);
          request = EventRequest header in
      case client_Events (client e) request of
        Inl err \<Rightarrow>
          \<lparr>returned = Inl err, calls = [CallNextHeader, CallRpc request],
           after = e\<lparr>session := sess\<rparr>, goroutine = None\<rparr>
      | Inr events \<Rightarrow>
          \<lparr>returned = Inr NoReply, calls = [CallNextHeader, CallRpc request],
           after = e\<lparr>session := sess\<rparr>,
           goroutine = Some (listen_loop events (start c))\<rparr>)"

subsection \<open>Construction\<close>

text \<open>
  \<open>base64.StdEncoding.EncodeToString\<close> of Go's standard library: the padded base64 of
  RFC 4648. Three bytes make a 24-bit value whose four 6-bit groups index the alphabet;
  a rest of two bytes or one byte is padded with \<open>=\<close>.
\<close>

definition encodeStd :: string where
  "encodeStd = ''ABCDEFGHIJKLMNOPQRSTUVWXYZabcdefghijklmnopqrstuvwxyz0123456789+/''"

definition sextet :: "nat \<Rightarrow> char" where
  "sextet val = encodeStd ! (val mod 64)"

fun EncodeToString :: "byte list \<Rightarrow> string" where
  "EncodeToString (b0 # b1 # b2 # rest) =
     (let val = unat b0 * 65536 + unat b1 * 256 + unat b2 in
      [sextet (val div 262144), sextet (val div 4096), sextet (val div 64), sextet val]
        @ EncodeToString rest)"
| "EncodeToString [b0, b1] =
     (let val = unat b0 * 65536 + unat b1 * 256 in
      [sextet (val div 262144), sextet (val div 4096), sextet (val div 64), CHR ''=''])"
| "EncodeToString [b0] =
     (let val = unat b0 * 65536 in
      [sextet (val div 262144), sextet (val div 4096), CHR ''='', CHR ''=''])"
| "EncodeToString [] = []"

text \<open>A printable character: ASCII from the space to the tilde.\<close>

definition printable :: "char \<Rightarrow> bool" where
  "printable ch = (32 \<le> (of_char ch :: nat) \<and> (of_char ch :: nat) < 127)"

text \<open>Modelled from the spec: \<open>util.GetPartitionIndex\<close>, which election.go calls but does
  not define. It maps the primitive's name to an index below the number of partitions, as a pure function
  of the name (a hash of the name, here the parameter \<open>hash\<close>, modulo the number), and
  fails with an invalid configuration when there is no partition.\<close>

definition GetPartitionIndex :: "(string \<Rightarrow> nat) \<Rightarrow> string \<Rightarrow> nat \<Rightarrow> error + nat" where
  "GetPartitionIndex hash nm n =
     (if n = 0 then Inl InvalidConfiguration else Inr (hash nm mod n))"

text \<open>
  \<open>New\<close>. The partitions are given by the client each connection leads to. The
  environment supplies \<open>session_New\<close>, which opens the session or fails, and \<open>NodeID\<close>,
  the bytes \<open>uuid.NodeID()\<close> returns in this process.
\<close>

definition New ::
  "(string \<Rightarrow> nat) \<Rightarrow> (string \<Rightarrow> client \<Rightarrow> error + SessionHeader) \<Rightarrow> byte list \<Rightarrow>
   string \<Rightarrow> client list \<Rightarrow> error + election" where
  "New hash session_New NodeID nm partitions =
     (case GetPartitionIndex hash nm (length partitions) of
        Inl err \<Rightarrow> Inl err
      | Inr i \<Rightarrow>
          let cl = partitions ! i in
          case session_New nm cl of
            Inl err \<Rightarrow> Inl err
          | Inr sess \<Rightarrow>
              let nodeId = NodeID;
                  candidate = EncodeToString nodeId in
              Inr \<lparr>name = nm, client = cl, session = sess, id' = candidate\<rparr>)"

subsection \<open>Callers\<close>

text \<open>The lifetime of an election instance is a sequence of operations of its interface,
  each applied to the election the previous one left.\<close>

datatype operation =
    DoGetTerm | DoEnter | DoLeave
  | DoAnoint string | DoPromote string | DoEvict string
  | DoListen chan

fun perform :: "election \<Rightarrow> operation \<Rightarrow> election" where
  "perform e DoGetTerm = after (GetTerm e)"
| "perform e DoEnter = after (Enter e)"
| "perform e DoLeave = after (Leave e)"
| "perform e (DoAnoint cid) = after (Anoint e cid)"
| "perform e (DoPromote cid) = after (Promote e cid)"
| "perform e (DoEvict cid) = after (Evict e cid)"
| "perform e (DoListen c) = after (Listen e c)"

subsection \<open>Reading the calls of an operation\<close>

text \<open>The requests an operation put on the wire, and the headers it passed to
  \<open>UpdateHeader\<close>, in order.\<close>

fun requests :: "call list \<Rightarrow> request list" where
  "requests [] = []"
| "requests (CallRpc rq # cs) = rq # requests cs"
| "requests (_ # cs) = requests cs"

fun updates :: "call list \<Rightarrow> ResponseHeader list" where
  "updates [] = []"
| "updates (CallUpdateHeader h # cs) = h # updates cs"
| "updates (_ # cs) = updates cs"

fun request_header :: "request \<Rightarrow> SessionHeader" where
  "request_header (GetLeadershipRequest h) = h"
| "request_header (EnterRequest h _) = h"
| "request_header (WithdrawRequest h _) = h"
| "request_header (AnointRequest h _) = h"
| "request_header (PromoteRequest h _) = h"
| "request_header (EvictRequest h _) = h"
| "request_header (EventRequest h) = h"

text \<open>The candidate id a request names; the two requests without one name none.\<close>

fun request_candidate :: "request \<Rightarrow> string" where
  "request_candidate (GetLeadershipRequest _) = []"
| "request_candidate (EnterRequest _ cid) = cid"
| "request_candidate (WithdrawRequest _ cid) = cid"
| "request_candidate (AnointRequest _ cid) = cid"
| "request_candidate (PromoteRequest _ cid) = cid"
| "request_candidate (EvictRequest _ cid) = cid"
| "request_candidate (EventRequest _) = []"

text \<open>
  An operation on election \<open>e\<close> \<^emph>\<open>advances\<close> the sequence number when it calls
  \<open>NextHeader\<close> once and \<open>GetHeader\<close> never, its one request carries the sequence number
  of \<open>e\<close> plus one, and it leaves the session at that number. It \<^emph>\<open>reuses\<close> the sequence
  number when it calls \<open>GetHeader\<close> once and \<open>NextHeader\<close> never, its one request carries
  the sequence number of \<open>e\<close>, and the session keeps it.
\<close>

definition advances :: "election \<Rightarrow> 'a outcome_scheme \<Rightarrow> bool" where
  "advances e out =
     (count_list (calls out) CallNextHeader = 1 \<and>
      count_list (calls out) CallGetHeader = 0 \<and>
      map (sequenceNumber \<circ> request_header) (requests (calls out)) =
        [sequenceNumber (session e) + 1] \<and>
      sequenceNumber (session (after out)) = sequenceNumber (session e) + 1)"

definition reuses :: "election \<Rightarrow> 'a outcome_scheme \<Rightarrow> bool" where
  "reuses e out =
     (count_list (calls out) CallGetHeader = 1 \<and>
      count_list (calls out) CallNextHeader = 0 \<and>
      map (sequenceNumber \<circ> request_header) (requests (calls out)) =
        [sequenceNumber (session e)] \<and>
      sequenceNumber (session (after out)) = sequenceNumber (session e))"

text \<open>
  An operation \<^emph>\<open>surfaces\<close> the answer of its RPC when it sent exactly the request \<open>rq\<close>
  and then: on a failure it returns that error, calls \<open>UpdateHeader\<close> not at all and
  leaves the session as \<open>sess\<close>, the session at the time of the request; on a response it
  returns no error, calls \<open>UpdateHeader\<close> once, with the response's header, and leaves
  the session merged with it.
\<close>

definition surfaces ::
  "error + 'r HeaderResponse_scheme \<Rightarrow> request \<Rightarrow> SessionHeader \<Rightarrow> 'a outcome_scheme \<Rightarrow> bool" where
  "surfaces answer rq sess out =
     (requests (calls out) = [rq] \<and>
      (case answer of
         Inl err \<Rightarrow>
           returned out = Inl err \<and> updates (calls out) = [] \<and> session (after out) = sess
       | Inr response \<Rightarrow>
           \<not> isl (returned out) \<and> updates (calls out) = [Header response] \<and>
           session (after out) = UpdateHeader sess (Header response)))"

subsection \<open>Example inputs\<close>

text \<open>Concrete sessions, servers, messages and channels, used to run the operations.
  The election on the servers has the one candidate \<open>''bob''\<close>, who leads.
  \<open>server_up\<close> answers every call; its administrative calls succeed for \<open>''bob''\<close> and
  report no success for any other id. \<open>server_strict\<close> differs in that it rejects an
  administrative call for any other id with an error. \<open>server_down\<close> fails every call.
  The channel \<open>channel0\<close> is open and empty, with room for eight events.\<close>

definition always :: "wait_outcome \<Rightarrow> StreamHeader \<Rightarrow> wait_outcome" where
  "always w stream = w"

definition header0 :: ResponseHeader where
  "header0 = \<lparr>Index = 7, Streams = []\<rparr>"

definition session0 :: SessionHeader where
  "session0 = \<lparr>sessionId = 1, sequenceNumber = 4, lastIndex = 6, streams = []\<rparr>"

definition term1 :: TermResponse where
  "term1 = \<lparr>Header = header0, Term = 1, Leader = ''bob'', Candidates = [''bob'']\<rparr>"

definition term2 :: TermResponse where
  "term2 = \<lparr>Header = \<lparr>Index = 8, Streams = [(1, 5)]\<rparr>,
            Term = 2, Leader = ''bob'', Candidates = [''bob'', ''carol'']\<rparr>"

definition term3 :: TermResponse where
  "term3 = \<lparr>Header = \<lparr>Index = 9, Streams = [(1, 6), (2, 1)]\<rparr>,
            Term = 3, Leader = ''carol'', Candidates = [''carol'']\<rparr>"

definition events0 :: "iteration list" where
  "events0 = [(Some term1, None, always Pending),
              (Some term2, None, always Received),
              (Some term3, None, always Closed)]"

definition succeeds :: "request \<Rightarrow> SucceededResponse" where
  "succeeds rq = \<lparr>Header = header0, Succeeded = (request_candidate rq = ''bob'')\<rparr>"

definition server_up :: "iteration list \<Rightarrow> client" where
  "server_up events =
     \<lparr>client_GetLeadership = (\<lambda>rq. Inr term1),
      client_Enter = (\<lambda>rq. Inr term2),
      client_Withdraw = (\<lambda>rq. Inr \<lparr>Header = header0\<rparr>),
      client_Anoint = (\<lambda>rq. Inr (succeeds rq)),
      client_Promote = (\<lambda>rq. Inr (succeeds rq)),
      client_Evict = (\<lambda>rq. Inr (succeeds rq)),
      client_Events = (\<lambda>rq. Inr events)\<rparr>"




definition unavailable :: error where
  "unavailable = Failure ''unavailable''"

definition server_down :: client where
  "server_down =
     \<lparr>client_GetLeadership = (\<lambda>rq. Inl unavailable),
      client_Enter = (\<lambda>rq. Inl unavailable),
      client_Withdraw = (\<lambda>rq. Inl unavailable),
      client_Anoint = (\<lambda>rq. Inl unavailable),
      client_Promote = (\<lambda>rq. Inl unavailable),
      client_Evict = (\<lambda>rq. Inl unavailable),
      client_Events = (\<lambda>rq. Inl unavailable)\<rparr>"

definition alice :: "client \<Rightarrow> election" where
  "alice cl = \<lparr>name = ''election'', client = cl, session = session0, id' = ''ABEiM0RV''\<rparr>"

definition channel0 :: chan where
  "channel0 = \<lparr>closed = False, queue = [], room = 8\<rparr>"

definition node0 :: "byte list" where
  "node0 = [0, 17, 34, 51, 68, 85]"

definition opens :: "uint64 \<Rightarrow> string \<Rightarrow> client \<Rightarrow> error + SessionHeader" where
  "opens sid nm cl = Inr (session0\<lparr>sessionId := sid\<rparr>)"

section \<open>Properties\<close>

subsection \<open>The session and the request headers\<close>

lemma sequenceNumber_UpdateHeader: "sequenceNumber (UpdateHeader s h) = sequenceNumber s"
  by (simp add: UpdateHeader_def)

lemma advances_Enter: "advances e (Enter e)"
  by (simp add: advances_def Enter_def NextHeader_def Let_def sequenceNumber_UpdateHeader
      split: sum.split)

lemma advances_Leave: "advances e (Leave e)"
  by (simp add: advances_def Leave_def NextHeader_def Let_def sequenceNumber_UpdateHeader
      split: sum.split)

lemma advances_Anoint: "advances e (Anoint e cid)"
  by (simp add: advances_def Anoint_def NextHeader_def Let_def sequenceNumber_UpdateHeader
      split: sum.split)

lemma advances_Promote: "advances e (Promote e cid)"
  by (simp add: advances_def Promote_def NextHeader_def Let_def sequenceNumber_UpdateHeader
      split: sum.split)

lemma advances_Evict: "advances e (Evict e cid)"
  by (simp add: advances_def Evict_def NextHeader_def Let_def sequenceNumber_UpdateHeader
      split: sum.split)

lemma advances_Listen: "advances e (Listen e c)"
  by (simp add: advances_def Listen_def NextHeader_def Let_def split: sum.split)

lemma reuses_GetTerm: "reuses e (GetTerm e)"
  by (simp add: reuses_def GetTerm_def GetHeader_def Let_def sequenceNumber_UpdateHeader
      split: sum.split)

text \<open>
  C2. Each of Enter, Leave, Anoint, Promote, Evict and Listen takes its request header
  from \<open>NextHeader\<close>: the one request it sends carries the session's sequence number plus
  one (in \<open>uint64\<close>), and the session is left at that number whether the RPC succeeds or
  fails. GetTerm takes its header from \<open>GetHeader\<close>: its request carries the session's
  sequence number as it is, and the session keeps it.
\<close>

theorem mutating_calls_advance_sequence_number:
  "advances e (Enter e) \<and> advances e (Leave e) \<and> advances e (Anoint e cid) \<and>
   advances e (Promote e cid) \<and> advances e (Evict e cid) \<and> advances e (Listen e c) \<and>
   reuses e (GetTerm e)"
  by (intro conjI advances_Enter advances_Leave advances_Anoint advances_Promote
        advances_Evict advances_Listen reuses_GetTerm)

theorem mutating_calls_advance_sequence_number_witness:
  "map (sequenceNumber \<circ> request_header) (requests (calls (Enter (alice server_down)))) = [5] \<and>
   sequenceNumber (session (after (Enter (alice server_down)))) = 5 \<and>
   map (sequenceNumber \<circ> request_header)
     (requests (calls (Listen (alice (server_up [])) channel0))) = [5] \<and>
   map (sequenceNumber \<circ> request_header) (requests (calls (GetTerm (alice server_down)))) = [4] \<and>
   sequenceNumber (session (after (GetTerm (alice server_down)))) = 4"
  using mutating_calls_advance_sequence_number [of "alice server_down"]
        mutating_calls_advance_sequence_number [of "alice (server_up [])" _ channel0]
  by (simp add: advances_def reuses_def alice_def session0_def)

subsection \<open>Failures and answers of the RPCs\<close>

lemma surfaces_GetTerm:
  "surfaces (client_GetLeadership (client e) (GetLeadershipRequest (GetHeader (session e))))
     (GetLeadershipRequest (GetHeader (session e))) (session e) (GetTerm e)"
  by (simp add: surfaces_def GetTerm_def Let_def split: sum.split)

lemma surfaces_Enter:
  "surfaces (client_Enter (client e) (EnterRequest (fst (NextHeader (session e))) (id' e)))
     (EnterRequest (fst (NextHeader (session e))) (id' e)) (snd (NextHeader (session e)))
     (Enter e)"
  by (simp add: surfaces_def Enter_def split_beta Let_def split: sum.split)

lemma surfaces_Leave:
  "surfaces (client_Withdraw (client e) (WithdrawRequest (fst (NextHeader (session e))) (id' e)))
     (WithdrawRequest (fst (NextHeader (session e))) (id' e)) (snd (NextHeader (session e)))
     (Leave e)"
  by (simp add: surfaces_def Leave_def split_beta Let_def split: sum.split)

lemma surfaces_Anoint:
  "surfaces (client_Anoint (client e) (AnointRequest (fst (NextHeader (session e))) cid))
     (AnointRequest (fst (NextHeader (session e))) cid) (snd (NextHeader (session e)))
     (Anoint e cid)"
  by (simp add: surfaces_def Anoint_def split_beta Let_def split: sum.split)

lemma surfaces_Promote:
  "surfaces (client_Promote (client e) (PromoteRequest (fst (NextHeader (session e))) cid))
     (PromoteRequest (fst (NextHeader (session e))) cid) (snd (NextHeader (session e)))
     (Promote e cid)"
  by (simp add: surfaces_def Promote_def split_beta Let_def split: sum.split)

lemma surfaces_Evict:
  "surfaces (client_Evict (client e) (EvictRequest (fst (NextHeader (session e))) cid))
     (EvictRequest (fst (NextHeader (session e))) cid) (snd (NextHeader (session e)))
     (Evict e cid)"
  by (simp add: surfaces_def Evict_def split_beta Let_def split: sum.split)

text \<open>
  C4. Each of GetTerm, Enter, Leave, Anoint, Promote and Evict sends exactly one request.
  When the RPC fails, the operation returns that very error, makes no call of
  \<open>UpdateHeader\<close>, and leaves the session as it was when the request was built (for the
  five mutating operations that is the session after \<open>NextHeader\<close>). When the RPC
  succeeds, the operation returns no error and calls \<open>UpdateHeader\<close> exactly once, with
  the header of the response. So \<open>UpdateHeader\<close> is called exactly when the RPC succeeds.
\<close>

theorem rpc_answers_are_surfaced:
  "surfaces (client_GetLeadership (client e) (GetLeadershipRequest (GetHeader (session e))))
     (GetLeadershipRequest (GetHeader (session e))) (session e) (GetTerm e) \<and>
   surfaces (client_Enter (client e) (EnterRequest (fst (NextHeader (session e))) (id' e)))
     (EnterRequest (fst (NextHeader (session e))) (id' e)) (snd (NextHeader (session e)))
     (Enter e) \<and>
   surfaces (client_Withdraw (client e) (WithdrawRequest (fst (NextHeader (session e))) (id' e)))
     (WithdrawRequest (fst (NextHeader (session e))) (id' e)) (snd (NextHeader (session e)))
     (Leave e) \<and>
   surfaces (client_Anoint (client e) (AnointRequest (fst (NextHeader (session e))) cid))
     (AnointRequest (fst (NextHeader (session e))) cid) (snd (NextHeader (session e)))
     (Anoint e cid) \<and>
   surfaces (client_Promote (client e) (PromoteRequest (fst (NextHeader (session e))) cid))
     (PromoteRequest (fst (NextHeader (session e))) cid) (snd (NextHeader (session e)))
     (Promote e cid) \<and>
   surfaces (client_Evict (client e) (EvictRequest (fst (NextHeader (session e))) cid))
     (EvictRequest (fst (NextHeader (session e))) cid) (snd (NextHeader (session e)))
     (Evict e cid)"
  by (intro conjI surfaces_GetTerm surfaces_Enter surfaces_Leave surfaces_Anoint
        surfaces_Promote surfaces_Evict)

theorem rpc_answers_are_surfaced_witness:
  "returned (GetTerm (alice server_down)) = Inl unavailable \<and>
   updates (calls (GetTerm (alice server_down))) = [] \<and>
   session (after (GetTerm (alice server_down))) = session0 \<and>
   returned (Enter (alice server_down)) = Inl unavailable \<and>
   updates (calls (Enter (alice server_down))) = [] \<and>
   returned (Leave (alice server_down)) = Inl unavailable \<and>
   updates (calls (Leave (alice server_down))) = [] \<and>
   returned (Anoint (alice server_down) ''bob'') = Inl unavailable \<and>
   updates (calls (Anoint (alice server_down) ''bob'')) = [] \<and>
   returned (Promote (alice server_down) ''bob'') = Inl unavailable \<and>
   updates (calls (Promote (alice server_down) ''bob'')) = [] \<and>
   returned (Evict (alice server_down) ''bob'') = Inl unavailable \<and>
   updates (calls (Evict (alice server_down) ''bob'')) = [] \<and>
   session (after (Evict (alice server_down) ''bob'')) = session0\<lparr>sequenceNumber := 5\<rparr> \<and>
   updates (calls (GetTerm (alice (server_up [])))) = [header0] \<and>
   updates (calls (Evict (alice (server_up [])) ''bob'')) = [header0]"
  using rpc_answers_are_surfaced [of "alice server_down" "''bob''"]
        rpc_answers_are_surfaced [of "alice (server_up [])" "''bob''"]
  by (simp add: surfaces_def alice_def server_down_def server_up_def succeeds_def
        GetHeader_def NextHeader_def Let_def session0_def term1_def)




text \<open>
  C6, as the claim states it, fails. Against a server whose candidates are \<open>[''bob'']\<close>,
  so that the client's own id \<open>''ABEiM0RV''\<close> is not among them, and which accepts the
  withdrawal, \<open>Leave\<close> succeeds, but what it returns is nil alone: there is no Term in
  its result, while \<open>GetTerm\<close> on the same election does return one.
\<close>

theorem Leave_returns_no_term_counterexample:
  "returned (GetTerm (alice (server_up []))) =
     Inr (TermReply \<lparr>term_Term = 1, term_Leader = ''bob'', term_Candidates = [''bob'']\<rparr>) \<and>
   Id' (alice (server_up [])) = ''ABEiM0RV'' \<and>
   returned (Leave (alice (server_up []))) = Inr NoReply"
  by (simp add: GetTerm_def Leave_def Id'_def alice_def server_up_def term1_def NextHeader_def
        Let_def)

text \<open>
  C6, amended. \<open>Leave\<close> sends one Withdraw request, carrying the client's own candidate id
  and the header of \<open>NextHeader\<close>; it makes no check of its own whether that id is among
  the candidates. It returns without error exactly when that RPC succeeds, and its
  result is never a Term.
\<close>

theorem Leave_succeeds_with_rpc:
  "requests (calls (Leave e)) = [WithdrawRequest (fst (NextHeader (session e))) (id' e)] \<and>
   (returned (Leave e) = Inr NoReply) =
     (\<not> isl (client_Withdraw (client e)
               (WithdrawRequest (fst (NextHeader (session e))) (id' e)))) \<and>
   returned (Leave e) \<noteq> Inr (TermReply t)"
  by (simp add: Leave_def split_beta Let_def split: sum.split)

theorem Leave_succeeds_with_rpc_witness:
  "requests (calls (Leave (alice (server_up [])))) =
     [WithdrawRequest (session0\<lparr>sequenceNumber := 5\<rparr>) ''ABEiM0RV''] \<and>
   returned (Leave (alice (server_up []))) = Inr NoReply \<and>
   returned (Leave (alice server_down)) \<noteq> Inr NoReply"
  using Leave_succeeds_with_rpc [of "alice (server_up [])"]
        Leave_succeeds_with_rpc [of "alice server_down"]
  by (simp add: alice_def server_up_def server_down_def NextHeader_def Let_def session0_def)

subsection \<open>The candidate identity\<close>

lemma id_New:
  "New hash session_New NodeID nm partitions = Inr e \<Longrightarrow> id' e = EncodeToString NodeID"
  by (auto simp: New_def Let_def split: sum.splits)

lemma length_encodeStd: "length encodeStd = 64"
  by (simp add: encodeStd_def)

lemma printable_encodeStd: "list_all printable encodeStd"
  by (simp add: encodeStd_def printable_def)

lemma printable_sextet: "printable (sextet val)"
proof -
  have "val mod 64 < length encodeStd"
    by (simp add: length_encodeStd)
  with printable_encodeStd show ?thesis
    unfolding sextet_def by (simp add: list_all_length)
qed

lemma printable_EncodeToString: "list_all printable (EncodeToString bs)"
  by (induction bs rule: EncodeToString.induct)
     (simp_all add: Let_def printable_sextet, simp_all add: printable_def)

lemma id_perform: "id' (perform e op) = id' e"
  by (cases op)
     (simp_all add: GetTerm_def Enter_def Leave_def Anoint_def Promote_def Evict_def Listen_def
        split_beta Let_def split: sum.split)

lemma id_foldl_perform: "id' (foldl perform e ops) = id' e"
  by (induction ops arbitrary: e) (simp_all add: id_perform)

lemma EncodeToString_node0: "EncodeToString node0 = ''ABEiM0RV''"
  by (simp add: node0_def sextet_def encodeStd_def)

lemma New_alice:
  "New length (opens 1) node0 ''election'' [server_up []] = Inr (alice (server_up []))"
  by (simp add: New_def GetPartitionIndex_def opens_def session0_def alice_def
        EncodeToString_node0)

text \<open>
  C7, as the claim states it, fails: the identity does not tell two clients apart. Two
  constructions for the same election with the same node id, each opening a session of
  its own (session ids 1 and 2), give two clients with the same candidate id.
\<close>

theorem candidate_id_shared_counterexample:
  "New length (opens 1) node0 ''election'' [server_up []] =
     Inr \<lparr>name = ''election'', client = server_up [],
          session = \<lparr>sessionId = 1, sequenceNumber = 4, lastIndex = 6, streams = []\<rparr>,
          id' = ''ABEiM0RV''\<rparr> \<and>
   New length (opens 2) node0 ''election'' [server_up []] =
     Inr \<lparr>name = ''election'', client = server_up [],
          session = \<lparr>sessionId = 2, sequenceNumber = 4, lastIndex = 6, streams = []\<rparr>,
          id' = ''ABEiM0RV''\<rparr>"
  by (simp add: New_def GetPartitionIndex_def opens_def session0_def EncodeToString_node0)

text \<open>
  C7, amended. The candidate identity is fixed at construction as the standard base64
  encoding of the node id, a string of printable characters, and \<open>Id\<close> returns it
  unchanged after any sequence of operations on the election.
\<close>

theorem candidate_id_is_encoded_node_id:
  assumes "New hash session_New NodeID nm partitions = Inr e"
  shows "Id' e = EncodeToString NodeID \<and> list_all printable (Id' e) \<and>
         Id' (foldl perform e ops) = Id' e"
  using id_New [OF assms] by (simp add: Id'_def printable_EncodeToString id_foldl_perform)

theorem candidate_id_is_encoded_node_id_witness:
  "New length (opens 1) node0 ''election'' [server_up []] = Inr (alice (server_up [])) \<and>
   Id' (alice (server_up [])) = ''ABEiM0RV'' \<and>
   list_all printable (Id' (alice (server_up []))) \<and>
   Id' (foldl perform (alice (server_up [])) [DoEnter, DoGetTerm, DoAnoint ''bob'', DoLeave]) =
     ''ABEiM0RV''"
  using candidate_id_is_encoded_node_id
          [OF New_alice, of "[DoEnter, DoGetTerm, DoAnoint ''bob'', DoLeave]"] New_alice
  by (simp add: EncodeToString_node0 printable_def)

text \<open>
  C10. Two elections constructed with the same node id have the same candidate id,
  whatever their names, their partitions, the partition chosen and their sessions.
\<close>

theorem same_node_same_candidate_id:
  assumes "New hash1 session_New1 NodeID nm1 partitions1 = Inr e1"
    and "New hash2 session_New2 NodeID nm2 partitions2 = Inr e2"
  shows "Id' e1 = Id' e2"
  using id_New [OF assms(1)] id_New [OF assms(2)] by (simp add: Id'_def)

theorem same_node_same_candidate_id_witness:
  "New length (opens 1) node0 ''election'' [server_up []] = Inr (alice (server_up [])) \<and>
   New length (opens 9) node0 ''other'' [server_down] =
     Inr \<lparr>name = ''other'', client = server_down,
          session = \<lparr>sessionId = 9, sequenceNumber = 4, lastIndex = 6, streams = []\<rparr>,
          id' = ''ABEiM0RV''\<rparr> \<and>
   Id' (alice (server_up [])) =
     Id' \<lparr>name = ''other'', client = server_down,
          session = \<lparr>sessionId = 9, sequenceNumber = 4, lastIndex = 6, streams = []\<rparr>,
          id' = ''ABEiM0RV''\<rparr>"
proof -
  have other: "New length (opens 9) node0 ''other'' [server_down] =
     Inr \<lparr>name = ''other'', client = server_down,
          session = \<lparr>sessionId = 9, sequenceNumber = 4, lastIndex = 6, streams = []\<rparr>,
          id' = ''ABEiM0RV''\<rparr>"
    by (simp add: New_def GetPartitionIndex_def opens_def session0_def EncodeToString_node0)
  from same_node_same_candidate_id [OF New_alice other] New_alice other
  show ?thesis by simp
qed

subsection \<open>The listener\<close>

lemma closed_listen_loop: "closed (chan (listen_loop events l)) = closed (chan l)"
proof (induction events arbitrary: l)
  case Nil
  show ?case by simp
next
  case (Cons it rest)
  obtain response err W where it: "it = (response, err, W)"
    by (cases it) auto
  show ?case
    unfolding it
    by (auto simp: Let_def send_def Cons.IH
          split: option.splits wait_outcome.splits sending.splits if_splits)
qed

text \<open>A listener that is still in its loop after a part of the stream has consumed all of
  that part, and goes on with what follows.\<close>

lemma listen_loop_append:
  "status (listen_loop xs l) = Running \<Longrightarrow>
   listen_loop (xs @ ys) l = listen_loop ys (listen_loop xs l)"
proof (induction xs arbitrary: l)
  case Nil
  show ?case by simp
next
  case (Cons it rest)
  obtain response err W where it: "it = (response, err, W)"
    by (cases it) auto
  from Cons.prems show ?case
    unfolding it
    by (auto simp: Let_def Cons.IH
          split: option.splits wait_outcome.splits sending.splits if_splits)
qed

text \<open>One iteration on a response that \<open>Recv\<close> returned without error, spelt out.\<close>

lemma listen_loop_received:
  "listen_loop ((Some r, None, W) # rest) l =
     (let put = (\<lambda>l. if closed (chan l) then l\<lparr>status := Panicked\<rparr>
                     else if room (chan l) = 0 then l\<lparr>status := Sending\<rparr>
                     else listen_loop rest
                            (l\<lparr>chan := (chan l)
                                 \<lparr>queue := queue (chan l) @
                                    [\<lparr>event_Type = EVENT_CHANGED,
                                      event_Term = \<lparr>term_Term = Term r,
                                                    term_Leader = Leader r,
                                                    term_Candidates = Candidates r\<rparr>\<rparr>],
                                  room := room (chan l) - 1\<rparr>\<rparr>)) in
      case Streams (Header r) of
        [] \<Rightarrow> put l
      | stream # _ \<Rightarrow>
          (case W stream of
             Received \<Rightarrow> put (l\<lparr>waited := waited l @ [stream]\<rparr>)
           | Closed \<Rightarrow> listen_loop rest (l\<lparr>waited := waited l @ [stream]\<rparr>)
           | Pending \<Rightarrow> l\<lparr>waited := waited l @ [stream], status := Waiting\<rparr>))"
  by (simp add: send_def Let_def split: list.split wait_outcome.split)

text \<open>
  C1. Take a session on which \<open>Listen\<close> was called, a channel \<open>c\<close> that is not closed,
  and any message \<open>r\<close> that \<open>Recv\<close> returns without error while the listener is still
  in its loop; \<open>l\<close> is the listener when the message arrives. The event of the message
  is the CHANGED event with the term, the leader and the candidates of \<open>r\<close>. If the
  message has no stream header, this event is sent to the channel at once, with no
  wait. If it has stream headers, the listener waits for the first of them: when the
  wait ends positively the event is sent to the channel; when the wait is cancelled
  nothing is sent and nothing is logged, and the listener goes on with the later
  messages only, so the event is never delivered; when the wait never ends the
  listener stays blocked. Sending puts the event at the end of the channel's queue and
  the listener goes on with the later messages; on a channel without room the send, and
  with it the listener, blocks instead.
\<close>

theorem listener_delivers_after_wait:
  assumes events: "client_Events (client e) (EventRequest (fst (NextHeader (session e)))) =
                     Inr (before @ (Some r, None, W) # later)"
    and reached: "status (listen_loop before (start c)) = Running"
    and "open": "\<not> closed c"
  shows "goroutine (Listen e c) =
           Some (let l = listen_loop before (start c);
                     put = (\<lambda>l. if room (chan l) = 0 then l\<lparr>status := Sending\<rparr>
                                 else listen_loop later
                                        (l\<lparr>chan := (chan l)
                                             \<lparr>queue := queue (chan l) @
                                                [\<lparr>event_Type = EVENT_CHANGED,
                                                  event_Term =
                                                    \<lparr>term_Term = Term r,
                                                     term_Leader = Leader r,
                                                     term_Candidates = Candidates r\<rparr>\<rparr>],
                                              room := room (chan l) - 1\<rparr>\<rparr>)) in
                 case Streams (Header r) of
                   [] \<Rightarrow> put l
                 | stream # _ \<Rightarrow>
                     (case W stream of
                        Received \<Rightarrow> put (l\<lparr>waited := waited l @ [stream]\<rparr>)
                      | Closed \<Rightarrow> listen_loop later (l\<lparr>waited := waited l @ [stream]\<rparr>)
                      | Pending \<Rightarrow> l\<lparr>waited := waited l @ [stream], status := Waiting\<rparr>))"
proof -
  let ?l = "listen_loop before (start c)"
  have "goroutine (Listen e c) = Some (listen_loop (before @ (Some r, None, W) # later) (start c))"
    using events by (simp add: Listen_def NextHeader_def Let_def)
  also have "listen_loop (before @ (Some r, None, W) # later) (start c) =
             listen_loop ((Some r, None, W) # later) ?l"
    using reached by (rule listen_loop_append)
  finally have run: "goroutine (Listen e c) = Some (listen_loop ((Some r, None, W) # later) ?l)" .
  have still_open: "\<not> closed (chan ?l)"
    using "open" by (simp add: closed_listen_loop start_def)
  show ?thesis
    unfolding run listen_loop_received
    using still_open by (simp add: Let_def split: list.split wait_outcome.split)
qed

theorem listener_delivers_after_wait_witness:
  "client_Events (client (alice (server_up events0)))
     (EventRequest (fst (NextHeader (session (alice (server_up events0)))))) =
     Inr ([(Some term1, None, always Pending)] @
          (Some term2, None, always Received) # [(Some term3, None, always Closed)]) \<and>
   status (listen_loop [(Some term1, None, always Pending)] (start channel0)) = Running \<and>
   \<not> closed channel0 \<and>
   goroutine (Listen (alice (server_up events0)) channel0) =
     Some \<lparr>chan =
             \<lparr>closed = False,
              queue =
                [\<lparr>event_Type = ''changed'',
                  event_Term = \<lparr>term_Term = 1, term_Leader = ''bob'',
                                term_Candidates = [''bob'']\<rparr>\<rparr>,
                 \<lparr>event_Type = ''changed'',
                  event_Term = \<lparr>term_Term = 2, term_Leader = ''bob'',
                                term_Candidates = [''bob'', ''carol'']\<rparr>\<rparr>],
              room = 6\<rparr>,
           logged = [], waited = [(1, 5), (1, 6)], status = Running\<rparr>"
  using listener_delivers_after_wait
          [of "alice (server_up events0)"
              "[(Some term1, None, always Pending)]" term2 "always Received"
              "[(Some term3, None, always Closed)]" channel0]
  by (simp add: alice_def server_up_def events0_def channel0_def start_def send_def
        term1_def term2_def term3_def header0_def always_def EVENT_CHANGED_def)

text \<open>
  C9. When \<open>Recv\<close> returns an error other than \<open>io.EOF\<close>, the loop logs it and goes on
  with the same iteration. It reads \<open>Streams\<close> of the response's header: a nil response
  is dereferenced there, which panics. From a response that is not nil it builds the
  CHANGED event with the term, the leader and the candidates of that response, and
  sends it exactly as for a response received without error: at once when there is no
  stream header, after a positive wait for the first stream header otherwise.
\<close>

theorem failed_recv_still_reads_response:
  assumes "err = Some failure" and "failure \<noteq> EOF"
  shows "listen_loop ((response, err, W) # rest) l =
           (let l = l\<lparr>logged := logged l @ [failure]\<rparr>;
                put = (\<lambda>l r. if closed (chan l) then l\<lparr>status := Panicked\<rparr>
                              else if room (chan l) = 0 then l\<lparr>status := Sending\<rparr>
                              else listen_loop rest
                                     (l\<lparr>chan := (chan l)
                                          \<lparr>queue := queue (chan l) @
                                             [\<lparr>event_Type = EVENT_CHANGED,
                                               event_Term =
                                                 \<lparr>term_Term = Term r,
                                                  term_Leader = Leader r,
                                                  term_Candidates = Candidates r\<rparr>\<rparr>],
                                           room := room (chan l) - 1\<rparr>\<rparr>)) in
            case response of
              None \<Rightarrow> l\<lparr>status := Panicked\<rparr>
            | Some r \<Rightarrow>
                (case Streams (Header r) of
                   [] \<Rightarrow> put l r
                 | stream # _ \<Rightarrow>
                     (case W stream of
                        Received \<Rightarrow> put (l\<lparr>waited := waited l @ [stream]\<rparr>) r
                      | Closed \<Rightarrow> listen_loop rest (l\<lparr>waited := waited l @ [stream]\<rparr>)
                      | Pending \<Rightarrow> l\<lparr>waited := waited l @ [stream], status := Waiting\<rparr>)))"
  using assms
  by (simp add: send_def Let_def split: option.split list.split wait_outcome.split)

theorem failed_recv_still_reads_response_witness:
  "Some unavailable = Some unavailable \<and> unavailable \<noteq> EOF \<and>
   listen_loop [(Some term1, Some unavailable, always Received)] (start channel0) =
     \<lparr>chan =
        \<lparr>closed = False,
         queue =
           [\<lparr>event_Type = ''changed'',
             event_Term = \<lparr>term_Term = 1, term_Leader = ''bob'',
                           term_Candidates = [''bob'']\<rparr>\<rparr>],
         room = 7\<rparr>,
      logged = [Failure ''unavailable''], waited = [], status = Running\<rparr> \<and>
   listen_loop [(Some term2, Some unavailable, always Received)] (start channel0) =
     \<lparr>chan =
        \<lparr>closed = False,
         queue =
           [\<lparr>event_Type = ''changed'',
             event_Term = \<lparr>term_Term = 2, term_Leader = ''bob'',
                           term_Candidates = [''bob'', ''carol'']\<rparr>\<rparr>],
         room = 7\<rparr>,
      logged = [Failure ''unavailable''], waited = [(1, 5)], status = Running\<rparr> \<and>
   listen_loop [(None, Some unavailable, always Received)] (start channel0) =
     \<lparr>chan = \<lparr>closed = False, queue = [], room = 8\<rparr>,
      logged = [Failure ''unavailable''], waited = [], status = Panicked\<rparr>"
  using failed_recv_still_reads_response
          [of "Some unavailable" unavailable "Some term1" "always Received" "[]" "start channel0"]
        failed_recv_still_reads_response
          [of "Some unavailable" unavailable "Some term2" "always Received" "[]" "start channel0"]
        failed_recv_still_reads_response
          [of "Some unavailable" unavailable None "always Received" "[]" "start channel0"]
  by (simp add: unavailable_def start_def channel0_def term1_def term2_def header0_def
        always_def EVENT_CHANGED_def)

text \<open>
  C3 does not hold of the code. A receive failure that is not the end of the stream is
  logged, but the listener does not stop. When \<open>Recv\<close> returns nil with the error, the
  goroutine panics on the nil response. When \<open>Recv\<close> returns a response with the error,
  the event of that response is delivered, and so is the event of the message that
  follows: the listener ends only at \<open>io.EOF\<close>.
\<close>

theorem listener_continues_after_receive_failure:
  "listen_loop [(None, Some unavailable, always Received)] (start channel0) =
     \<lparr>chan = \<lparr>closed = False, queue = [], room = 8\<rparr>,
      logged = [Failure ''unavailable''], waited = [], status = Panicked\<rparr> \<and>
   listen_loop [(Some term1, Some unavailable, always Received),
                (Some term2, None, always Received),
                (None, Some EOF, always Received)] (start channel0) =
     \<lparr>chan =
        \<lparr>closed = False,
         queue =
           [\<lparr>event_Type = ''changed'',
             event_Term = \<lparr>term_Term = 1, term_Leader = ''bob'',
                           term_Candidates = [''bob'']\<rparr>\<rparr>,
            \<lparr>event_Type = ''changed'',
             event_Term = \<lparr>term_Term = 2, term_Leader = ''bob'',
                           term_Candidates = [''bob'', ''carol'']\<rparr>\<rparr>],
         room = 6\<rparr>,
      logged = [Failure ''unavailable''], waited = [(1, 5)], status = Done\<rparr>"
  by (simp add: start_def channel0_def unavailable_def send_def term1_def term2_def
        header0_def always_def EVENT_CHANGED_def)

text \<open>
  C8. The listener never closes the caller's channel: whatever the event stream, and
  however the run ends (end of stream, receive failure, cancelled or unfinished wait,
  blocked send, panic), the channel is closed afterwards only if it was closed before.
  This holds of the loop from any state, and so of the goroutine that \<open>Listen\<close> starts
  on channel \<open>c\<close>.
\<close>

theorem listener_never_closes_channel:
  "closed (chan (listen_loop events l)) = closed (chan l) \<and>
   (case goroutine (Listen e c) of
      None \<Rightarrow> True
    | Some l' \<Rightarrow> closed (chan l') = closed c)"
proof
  show "closed (chan (listen_loop events l)) = closed (chan l)"
    by (rule closed_listen_loop)
next
  show "case goroutine (Listen e c) of None \<Rightarrow> True | Some l' \<Rightarrow> closed (chan l') = closed c"
  proof (cases "client_Events (client e) (EventRequest (fst (NextHeader (session e))))")
    case (Inl err)
    then show ?thesis
      by (simp add: Listen_def split_beta Let_def)
  next
    case (Inr stream)
    then have "goroutine (Listen e c) = Some (listen_loop stream (start c))"
      by (simp add: Listen_def split_beta Let_def)
    then show ?thesis
      by (simp add: closed_listen_loop start_def)
  qed
qed

theorem listener_never_closes_channel_witness:
  "closed (chan (listen_loop [(Some term1, None, always Received),
                              (None, Some EOF, always Received)] (start channel0))) = False \<and>
   closed (chan (listen_loop [(None, Some unavailable, always Received)] (start channel0))) =
     False \<and>
   closed (chan (listen_loop [(Some term3, None, always Closed)] (start channel0))) = False"
  using listener_never_closes_channel
          [of "[(Some term1, None, always Received), (None, Some EOF, always Received)]"
              "start channel0"]
        listener_never_closes_channel
          [of "[(None, Some unavailable, always Received)]" "start channel0"]
        listener_never_closes_channel [of "[(Some term3, None, always Closed)]" "start channel0"]
  by (simp add: start_def channel0_def)

end
